theory Spec2Isabelle
  imports Main "HOL-Library.Word"
begin

unbundle bit_operations_syntax

section \<open>The HTTP surface of the volume service (src/api/volume_server.go)\<close>

text \<open>
  The handlers of \<^verbatim>\<open>VolumeServer\<close> are embedded as functions from the request and the
  answers of the collaborators they call (the strategerizer, the repository, the JSON
  decoder, the random source, the response writer) to the sequence of effects they perform, in program
  order: log lines, calls on the repository, calls on the \<^verbatim>\<open>http.ResponseWriter\<close>.
  Each handler calls each collaborator at most once, so a collaborator is a function of
  the arguments of that call.
\<close>

subsection \<open>Errors\<close>

text \<open>
  Modelled from the spec: the error values of package \<^verbatim>\<open>volume\<close>, whose declarations are
  not under src/. The handlers compare against three of them by name
  (\<^verbatim>\<open>volume.ErrVolumeDoesNotExist\<close>, \<^verbatim>\<open>volume.ErrParentVolumeNotFound\<close>,
  \<^verbatim>\<open>volume.ErrNoParentVolumeProvided\<close>: the spec's NotFound, ParentNotFound and
  NoParentProvided); the other kinds are those of the spec's error taxonomy.
  \<^verbatim>\<open>errors_New m\<close> is the value of Go's \<^verbatim>\<open>errors.New(m)\<close>, and \<^verbatim>\<open>Error\<close> its
  message; the handlers ask for the message of such values only.
\<close>

datatype error =
    ErrVolumeDoesNotExist
  | ErrParentVolumeNotFound
  | ErrNoParentVolumeProvided
  | HandleAlreadyExists
  | HasChildren
  | UnprocessableStrategy
  | StreamMalformed
  | StreamFailed
  | SubPathNotFound
  | errors_New (Error: string)

text \<open>Lines 18 to 28 of the source.\<close>

definition ErrCreateVolumeFailed :: error where
  "ErrCreateVolumeFailed = errors_New ''failed to create volume''"

definition ErrDestroyVolumeFailed :: error where
  "ErrDestroyVolumeFailed = errors_New ''failed to destroy volume''"

definition ErrStreamInFailed :: error where
  "ErrStreamInFailed = errors_New ''failed to stream in to volume''"

definition ErrStreamOutFailed :: error where
  "ErrStreamOutFailed = errors_New ''failed to stream out from volume''"

definition ErrStreamOutNotFound :: error where
  "ErrStreamOutNotFound = errors_New ''no such file or directory''"

text \<open>
  Modelled from the spec: which repository failures \<^verbatim>\<open>os.IsNotExist\<close> recognises. The
  spec names the failure of \<^verbatim>\<open>StreamOut\<close> on a sub path that does not exist
  SubPathNotFound; it is the file system's not-exist error. Values made by
  \<^verbatim>\<open>errors.New\<close> are never recognised.
\<close>

fun os_IsNotExist :: "error \<Rightarrow> bool" where
  "os_IsNotExist SubPathNotFound = True"
| "os_IsNotExist _ = False"

subsection \<open>Status codes\<close>

abbreviation StatusCreated :: nat where "StatusCreated \<equiv> 201"
abbreviation StatusNoContent :: nat where "StatusNoContent \<equiv> 204"
abbreviation StatusBadRequest :: nat where "StatusBadRequest \<equiv> 400"
abbreviation StatusNotFound :: nat where "StatusNotFound \<equiv> 404"
abbreviation StatusInternalServerError :: nat where "StatusInternalServerError \<equiv> 500"
abbreviation httpUnprocessableEntity :: nat where "httpUnprocessableEntity \<equiv> 422"

subsection \<open>Requests, volumes and collaborators\<close>

text \<open>
  Modelled from the spec: the types \<^verbatim>\<open>volume.Strategy\<close>, \<^verbatim>\<open>volume.Volume\<close> and
  \<^verbatim>\<open>baggageclaim.VolumeRequest\<close> are declared outside src/. Their fields are the ones the
  handlers read and the ones the spec lists.
\<close>

datatype Strategy = Empty | COWFrom string | Import string

record Volume =
  Handle :: string
  Path :: string
  Properties :: "string \<rightharpoonup> string"
  TTL :: nat
  Privileged :: bool

record StrategyRequest =
  strategy_type :: string
  parent_handle :: string
  host_path :: string

record VolumeRequest =
  Handle :: string
  Strategy :: StrategyRequest
  Properties :: "string \<rightharpoonup> string"
  TTLInSeconds :: nat
  Privileged :: bool

text \<open>
  An \<^verbatim>\<open>http.Request\<close> as the handlers read it: the body, the decoded key and value pairs
  of the URL's query in the order they are written, and the route parameters that
  \<^verbatim>\<open>rata.Param\<close> returns.
\<close>

record Request =
  Body :: string
  RawQuery :: "(string \<times> string) list"
  Param :: "string \<Rightarrow> string"

text \<open>
  \<^verbatim>\<open>req.URL.Query()\<close>: a key is present exactly when the query has a pair for it, and
  then maps to the values of its pairs in their order.
\<close>

definition URL_Query :: "Request \<Rightarrow> string \<rightharpoonup> string list" where
  "URL_Query req k =
     (case map snd (filter (\<lambda>p. fst p = k) (RawQuery req)) of
        [] \<Rightarrow> None
      | v # vs \<Rightarrow> Some (v # vs))"

text \<open>
  The interfaces \<^verbatim>\<open>volume.Strategerizer\<close> and \<^verbatim>\<open>volume.Repository\<close> are records of
  their methods (only the methods the embedded handlers call). \<^verbatim>\<open>StreamOut\<close> is handed
  the response writer: its answer holds the chunks it wrote there before it returned.
\<close>

record Strategerizer =
  StrategyFor :: "VolumeRequest \<Rightarrow> error + Strategy"

record Repository =
  repo_CreateVolume ::
    "string \<Rightarrow> Strategy \<Rightarrow> (string \<rightharpoonup> string) \<Rightarrow> nat \<Rightarrow> bool \<Rightarrow> error + Volume"
  repo_DestroyVolume :: "string \<Rightarrow> error option"
  repo_StreamIn :: "string \<Rightarrow> string \<Rightarrow> string \<Rightarrow> bool \<times> error option"
  repo_StreamOut :: "string \<Rightarrow> string \<Rightarrow> string list \<times> error option"

record VolumeServer =
  strategerizer :: Strategerizer
  volumeRepo :: Repository

text \<open>
  The libraries, as the answers they give at this request: what decoding a body as a
  \<^verbatim>\<open>VolumeRequest\<close> yields, and what reading the random source yields (an error, or
  the bytes drawn, by position).
\<close>

record Env =
  json_Decode :: "string \<Rightarrow> error + VolumeRequest"
  rand_Read :: "error + (nat \<Rightarrow> 8 word)"

text \<open>
  Modelled from the spec: the UUID library (\<^verbatim>\<open>uuid.NewV4\<close> and the \<^verbatim>\<open>String\<close> method of
  its result), which is not under src/. The spec calls a server-generated handle a UUIDv4,
  hex with dashes: sixteen bytes from the random source, the four high bits of byte 6 set
  to the version 4, printed as lowercase hex in groups of 4, 2, 2, 2 and 6 bytes joined by
  dashes. \<^verbatim>\<open>NewV4\<close> fails exactly when the random source does. The spec says nothing of
  the variant bits of byte 8; they are left as drawn.
\<close>

type_synonym UUID = "8 word list"

definition setVersion :: "8 word \<Rightarrow> UUID \<Rightarrow> UUID" where
  "setVersion v u = u[6 := (u ! 6 AND 0xF) OR push_bit 4 v]"

definition uuid_NewV4 :: "Env \<Rightarrow> error + UUID" where
  "uuid_NewV4 env =
     (case rand_Read env of
        Inl err \<Rightarrow> Inl err
      | Inr draw \<Rightarrow> Inr (setVersion 4 (map draw [0..<16])))"

definition hex_digits :: string where
  "hex_digits = ''0123456789abcdef''"

definition hex_digit :: "nat \<Rightarrow> char" where
  "hex_digit n = hex_digits ! n"

definition hex_byte :: "8 word \<Rightarrow> string" where
  "hex_byte b = [hex_digit (unat (drop_bit 4 b)), hex_digit (unat (b AND 0xF))]"

definition hex :: "8 word list \<Rightarrow> string" where
  "hex bs = concat (map hex_byte bs)"

definition uuid_String :: "UUID \<Rightarrow> string" where
  "uuid_String u =
     hex (take 4 u) @ ''-'' @ hex (take 2 (drop 4 u)) @ ''-'' @ hex (take 2 (drop 6 u)) @ ''-'' @
     hex (take 2 (drop 8 u)) @ ''-'' @ hex (drop 10 u)"



subsection \<open>Effects\<close>

datatype level = Debug | Info | Err

datatype payload =
    ErrorResponse string
  | VolumeResponse Volume
  | Chunk string

datatype repo_call =
    CallCreateVolume string Strategy "string \<rightharpoonup> string" nat bool
  | CallDestroyVolume string
  | CallStreamIn string string string
  | CallStreamOut string string

text \<open>
  One effect of a handler: a log line (level and action), a call on the repository with
  its arguments, or a call on the response writer: \<^verbatim>\<open>Header().Set\<close>,
  \<^verbatim>\<open>WriteHeader\<close>, or a payload handed to the writer (the JSON encoder and the
  repository's StreamOut do that). \<^verbatim>\<open>Panic\<close> is Go's run-time panic.
\<close>

datatype event =
    Log level string
  | Repo repo_call
  | SetHeader string string
  | WriteHeader nat
  | Write payload
  | Panic

text \<open>
  The response writer is the function giving the result of \<^verbatim>\<open>w.Write\<close> on a payload
  (\<^verbatim>\<open>None\<close>: written).
\<close>

type_synonym ResponseWriter = "payload \<Rightarrow> error option"

text \<open>
  What the client observes, as \<^verbatim>\<open>net/http\<close> defines it: the status is the code of the
  first \<^verbatim>\<open>WriteHeader\<close>, or 200 when a \<^verbatim>\<open>Write\<close> comes first or the handler returns
  without either; the headers sent are those set before that moment.
\<close>

fun status_of :: "event list \<Rightarrow> nat" where
  "status_of [] = 200"
| "status_of (WriteHeader c # es) = c"
| "status_of (Write p # es) = 200"
| "status_of (e # es) = status_of es"

fun headers_sent :: "event list \<Rightarrow> (string \<times> string) list" where
  "headers_sent [] = []"
| "headers_sent (WriteHeader c # es) = []"
| "headers_sent (Write p # es) = []"
| "headers_sent (SetHeader k v # es) = (k, v) # headers_sent es"
| "headers_sent (e # es) = headers_sent es"

fun is_w_call :: "event \<Rightarrow> bool" where
  "is_w_call (SetHeader k v) = True"
| "is_w_call (WriteHeader c) = True"
| "is_w_call (Write p) = True"
| "is_w_call _ = False"

definition w_calls :: "event list \<Rightarrow> event list" where
  "w_calls es = filter is_w_call es"

fun body_of :: "event list \<Rightarrow> payload list" where
  "body_of [] = []"
| "body_of (Write p # es) = p # body_of es"
| "body_of (e # es) = body_of es"

fun repo_calls :: "event list \<Rightarrow> repo_call list" where
  "repo_calls [] = []"
| "repo_calls (Repo c # es) = c # repo_calls es"
| "repo_calls (e # es) = repo_calls es"


fun logged :: "event list \<Rightarrow> (level \<times> string) list" where
  "logged [] = []"
| "logged (Log l a # es) = (l, a) # logged es"
| "logged (e # es) = logged es"

subsection \<open>The handlers\<close>

text \<open>
  Modelled from the spec: \<^verbatim>\<open>RespondWithError\<close> is a function of package \<^verbatim>\<open>api\<close> that is
  not under src/. By the spec an error produces the given status and the body
  \<^verbatim>\<open>{"error": "<message>"}\<close>.
\<close>

definition RespondWithError :: "error \<Rightarrow> nat \<Rightarrow> event list" where
  "RespondWithError err code = [WriteHeader code, Write (ErrorResponse (Error err))]"

text \<open>\<^verbatim>\<open>VolumeServer.generateHandle\<close>, lines 427 to 434.\<close>

definition generateHandle :: "Env \<Rightarrow> error + string" where
  "generateHandle env =
     (case uuid_NewV4 env of
        Inl err \<Rightarrow> Inl err
      | Inr handle \<Rightarrow> Inr (uuid_String handle))"

text \<open>
  \<^verbatim>\<open>VolumeServer.CreateVolume\<close>, lines 49 to 127. The deferred \<^verbatim>\<open>Debug("done")\<close> runs
  on every return. The data attached to log lines is left out.
\<close>

definition CreateVolume :: "Env \<Rightarrow> VolumeServer \<Rightarrow> ResponseWriter \<Rightarrow> Request \<Rightarrow> event list" where
  "CreateVolume env vs w req =
     [Log Debug ''start''] @
     (case json_Decode env (Body req) of
        Inl err \<Rightarrow>
          [Log Err ''failed-to-decode-request''] @
          RespondWithError ErrCreateVolumeFailed StatusBadRequest
      | Inr request \<Rightarrow>
          (case (if VolumeRequest.Handle request = ''''
                 then generateHandle env
                 else Inr (VolumeRequest.Handle request)) of
             Inl err \<Rightarrow>
               [Log Err ''failed-to-generate-handle''] @
               RespondWithError ErrCreateVolumeFailed StatusBadRequest
           | Inr handle \<Rightarrow>
               (case StrategyFor (strategerizer vs) request of
                  Inl err \<Rightarrow>
                    [Log Err ''could-not-produce-strategy''] @
                    RespondWithError ErrCreateVolumeFailed httpUnprocessableEntity
                | Inr strategy \<Rightarrow>
                    [Log Debug ''creating'',
                     Repo (CallCreateVolume handle strategy
                             (VolumeRequest.Properties request)
                             (TTLInSeconds request)
                             (VolumeRequest.Privileged request))] @
                    (case repo_CreateVolume (volumeRepo vs) handle strategy
                            (VolumeRequest.Properties request)
                            (TTLInSeconds request)
                            (VolumeRequest.Privileged request) of
                       Inl err \<Rightarrow>
                         [Log Err ''failed-to-create''] @
                         RespondWithError ErrCreateVolumeFailed
                           (if err = ErrParentVolumeNotFound then httpUnprocessableEntity
                            else if err = ErrNoParentVolumeProvided then httpUnprocessableEntity
                            else StatusInternalServerError)
                     | Inr createdVolume \<Rightarrow>
                         [Log Debug ''created'',
                          SetHeader ''Content-Type'' ''application/json'',
                          WriteHeader StatusCreated,
                          Write (VolumeResponse createdVolume)] @
                         (case w (VolumeResponse createdVolume) of
                            Some err \<Rightarrow> [Log Err ''failed-to-encode'']
                          | None \<Rightarrow> []))))) @
     [Log Debug ''done'']"

text \<open>\<^verbatim>\<open>VolumeServer.DestroyVolume\<close>, lines 129 to 155.\<close>

definition DestroyVolume :: "VolumeServer \<Rightarrow> ResponseWriter \<Rightarrow> Request \<Rightarrow> event list" where
  "DestroyVolume vs w req =
     (let handle = Param req ''handle'' in
      [Log Debug ''start'', Repo (CallDestroyVolume handle)] @
      (case repo_DestroyVolume (volumeRepo vs) handle of
         Some err \<Rightarrow>
           (if err = ErrVolumeDoesNotExist
            then [Log Info ''volume-does-not-exist''] @
                 RespondWithError ErrDestroyVolumeFailed StatusNotFound
            else [Log Err ''failed-to-destroy''] @
                 RespondWithError ErrDestroyVolumeFailed StatusInternalServerError)
       | None \<Rightarrow> [Log Info ''destroyed'', WriteHeader StatusNoContent]) @
      [Log Debug ''done''])"

text \<open>
  Lines 365 to 368 and 402 to 405, the same in both stream handlers: the sub path is the
  first value of the query's \<^verbatim>\<open>path\<close> key, or the empty string when the key is absent.
  Indexing an empty list of values panics in Go; the result is then \<^verbatim>\<open>None\<close>.
\<close>

definition subPath_of :: "Request \<Rightarrow> string option" where
  "subPath_of req =
     (case URL_Query req ''path'' of
        None \<Rightarrow> Some ''''
      | Some queryPath \<Rightarrow> (case queryPath of [] \<Rightarrow> None | v # vs \<Rightarrow> Some v))"

text \<open>\<^verbatim>\<open>VolumeServer.StreamIn\<close>, lines 355 to 390.\<close>

definition StreamIn :: "VolumeServer \<Rightarrow> ResponseWriter \<Rightarrow> Request \<Rightarrow> event list" where
  "StreamIn vs w req =
     (let handle = Param req ''handle'' in
      [Log Debug ''start''] @
      (case subPath_of req of
         None \<Rightarrow> [Panic]
       | Some subPath \<Rightarrow>
           [Repo (CallStreamIn handle subPath (Body req))] @
           (case repo_StreamIn (volumeRepo vs) handle subPath (Body req) of
              (badStream, Some err) \<Rightarrow>
                (if err = ErrVolumeDoesNotExist
                 then [Log Info ''volume-not-found''] @
                      RespondWithError ErrStreamInFailed StatusNotFound
                 else if badStream
                 then [Log Info ''bad-stream-payload''] @
                      RespondWithError ErrStreamInFailed StatusBadRequest
                 else [Log Err ''failed-to-stream-into-volume''] @
                      RespondWithError ErrStreamInFailed StatusInternalServerError)
            | (badStream, None) \<Rightarrow> [WriteHeader StatusNoContent])) @
      [Log Debug ''done''])"

text \<open>
  \<^verbatim>\<open>VolumeServer.StreamOut\<close>, lines 392 to 425. The repository writes the archive to
  the response writer itself; on success the handler adds nothing.
\<close>

definition StreamOut :: "VolumeServer \<Rightarrow> ResponseWriter \<Rightarrow> Request \<Rightarrow> event list" where
  "StreamOut vs w req =
     (let handle = Param req ''handle'' in
      [Log Debug ''start''] @
      (case subPath_of req of
         None \<Rightarrow> [Panic]
       | Some subPath \<Rightarrow>
           [Repo (CallStreamOut handle subPath)] @
           (case repo_StreamOut (volumeRepo vs) handle subPath of
              (written, Some err) \<Rightarrow>
                map (\<lambda>c. Write (Chunk c)) written @
                (if err = ErrVolumeDoesNotExist
                 then [Log Info ''volume-not-found''] @
                      RespondWithError ErrStreamOutFailed StatusNotFound
                 else if os_IsNotExist err
                 then [Log Info ''source-path-not-found''] @
                      RespondWithError ErrStreamOutNotFound StatusNotFound
                 else [Log Err ''failed-to-stream-out''] @
                      RespondWithError ErrStreamOutFailed StatusInternalServerError)
            | (written, None) \<Rightarrow> map (\<lambda>c. Write (Chunk c)) written)) @
      [Log Debug ''done''])"

subsection \<open>Concrete collaborators and requests\<close>

text \<open>
  Collaborators that give one fixed answer, for running the handlers on concrete requests.
\<close>

definition volume_request :: "string \<Rightarrow> VolumeRequest" where
  "volume_request h =
     \<lparr> VolumeRequest.Handle = h,
       Strategy = \<lparr> strategy_type = ''empty'', parent_handle = '''', host_path = '''' \<rparr>,
       VolumeRequest.Properties = Map.empty,
       TTLInSeconds = 0,
       VolumeRequest.Privileged = False \<rparr>"

definition env_of :: "error + VolumeRequest \<Rightarrow> error + (nat \<Rightarrow> 8 word) \<Rightarrow> Env" where
  "env_of d r = \<lparr> json_Decode = (\<lambda>b. d), rand_Read = r \<rparr>"

definition drawn :: "nat \<Rightarrow> 8 word" where
  "drawn i = of_nat (17 * i)"

definition vol :: "string \<Rightarrow> Volume" where
  "vol h = \<lparr> Volume.Handle = h, Path = ''/live/'' @ h, Volume.Properties = Map.empty,
             TTL = 0, Volume.Privileged = False \<rparr>"

definition repo_create :: "error option \<Rightarrow> Repository" where
  "repo_create c =
     \<lparr> repo_CreateVolume = (\<lambda>h s p t pr. case c of Some e \<Rightarrow> Inl e | None \<Rightarrow> Inr (vol h)),
       repo_DestroyVolume = (\<lambda>h. None),
       repo_StreamIn = (\<lambda>h p b. (False, None)),
       repo_StreamOut = (\<lambda>h p. ([], None)) \<rparr>"

definition repo_destroy :: "error option \<Rightarrow> Repository" where
  "repo_destroy d = (repo_create None) \<lparr> repo_DestroyVolume := (\<lambda>h. d) \<rparr>"

definition repo_stream_in :: "bool \<times> error option \<Rightarrow> Repository" where
  "repo_stream_in i = (repo_create None) \<lparr> repo_StreamIn := (\<lambda>h p b. i) \<rparr>"

definition repo_stream_out :: "string list \<times> error option \<Rightarrow> Repository" where
  "repo_stream_out out = (repo_create None) \<lparr> repo_StreamOut := (\<lambda>h p. out) \<rparr>"

text \<open>
  A repository whose StreamIn answers by its arguments: it does not know the handle
  \<^verbatim>\<open>gone\<close>, refuses the sub path \<^verbatim>\<open>../etc\<close> as a bad stream, fails on an empty body
  and accepts everything else.
\<close>

definition repo_checking :: Repository where
  "repo_checking =
     (repo_create None)
       \<lparr> repo_StreamIn := (\<lambda>h p b.
            if h = ''gone'' then (False, Some ErrVolumeDoesNotExist)
            else if p = ''../etc'' then (True, Some StreamMalformed)
            else if b = '''' then (False, Some StreamFailed)
            else (False, None)) \<rparr>"

definition server :: "error + Strategy \<Rightarrow> Repository \<Rightarrow> VolumeServer" where
  "server st r = \<lparr> strategerizer = \<lparr> StrategyFor = (\<lambda>q. st) \<rparr>, volumeRepo = r \<rparr>"

definition w_ok :: ResponseWriter where
  "w_ok p = None"

definition w_broken :: ResponseWriter where
  "w_broken p = Some (errors_New ''broken pipe'')"

definition http_request :: "string \<Rightarrow> (string \<times> string) list \<Rightarrow> string \<Rightarrow> Request" where
  "http_request h q b = \<lparr> Body = b, RawQuery = q, Param = (\<lambda>k. if k = ''handle'' then h else '''') \<rparr>"

section \<open>Properties\<close>

lemmas example_defs =
  env_of_def volume_request_def vol_def repo_create_def repo_destroy_def
  repo_stream_in_def repo_stream_out_def repo_checking_def server_def w_ok_def w_broken_def http_request_def

lemmas api_errors =
  ErrCreateVolumeFailed_def ErrDestroyVolumeFailed_def ErrStreamInFailed_def
  ErrStreamOutFailed_def ErrStreamOutNotFound_def

lemma status_of_RespondWithError [simp]:
  "status_of (RespondWithError err code @ es) = code"
  by (simp add: RespondWithError_def)

lemma body_of_RespondWithError [simp]:
  "body_of (RespondWithError err code @ es) = ErrorResponse (Error err) # body_of es"
  by (simp add: RespondWithError_def)

lemma repo_calls_RespondWithError [simp]:
  "repo_calls (RespondWithError err code @ es) = repo_calls es"
  by (simp add: RespondWithError_def)

lemma headers_sent_RespondWithError [simp]:
  "headers_sent (RespondWithError err code @ es) = []"
  by (simp add: RespondWithError_def)

lemma logged_RespondWithError [simp]:
  "logged (RespondWithError err code @ es) = logged es"
  by (simp add: RespondWithError_def)

lemma repo_calls_chunks [simp]:
  "repo_calls (map (\<lambda>c. Write (Chunk c)) written @ es) = repo_calls es"
  by (induction written) simp_all

subsection \<open>The sub path of a stream request\<close>

text \<open>The values of a key that \<^verbatim>\<open>URL_Query\<close> holds are never empty, so indexing never panics.\<close>

lemma subPath_of_Some: "\<exists>p. subPath_of req = Some p"
  by (simp add: subPath_of_def URL_Query_def split: list.split)

lemma subPath_of_absent:
  assumes "\<forall>v. (''path'', v) \<notin> set (RawQuery req)"
  shows "subPath_of req = Some ''''"
proof -
  have "filter (\<lambda>p. fst p = ''path'') (RawQuery req) = []"
    using assms by (auto simp: filter_empty_conv)
  then show ?thesis by (simp add: subPath_of_def URL_Query_def)
qed

lemma subPath_of_first:
  assumes "RawQuery req = pre @ (''path'', v) # post"
    and "\<forall>u. (''path'', u) \<notin> set pre"
  shows "subPath_of req = Some v"
proof -
  have "filter (\<lambda>p. fst p = ''path'') pre = []"
    using assms(2) by (auto simp: filter_empty_conv)
  then show ?thesis using assms(1) by (simp add: subPath_of_def URL_Query_def)
qed

lemma StreamIn_no_panic: "Panic \<notin> set (StreamIn vs w req)"
proof -
  obtain p where "subPath_of req = Some p"
    using subPath_of_Some by blast
  then show ?thesis
    by (simp add: StreamIn_def Let_def RespondWithError_def split: prod.split option.split)
qed

lemma StreamOut_no_panic: "Panic \<notin> set (StreamOut vs w req)"
proof -
  obtain p where "subPath_of req = Some p"
    using subPath_of_Some by blast
  then show ?thesis
    by (auto simp: StreamOut_def Let_def RespondWithError_def split: prod.split option.split)
qed

subsection \<open>The generated handle\<close>













subsection \<open>POST /volumes\<close>

text \<open>
  The status of a creation request, by the answers of the collaborators in the order the
  handler consults them.
\<close>

lemma CreateVolume_status:
  "status_of (CreateVolume env vs w req) =
     (case json_Decode env (Body req) of
        Inl err \<Rightarrow> 400
      | Inr request \<Rightarrow>
          (case (if VolumeRequest.Handle request = '''' then generateHandle env
                 else Inr (VolumeRequest.Handle request)) of
             Inl err \<Rightarrow> 400
           | Inr handle \<Rightarrow>
               (case StrategyFor (strategerizer vs) request of
                  Inl err \<Rightarrow> 422
                | Inr strategy \<Rightarrow>
                    (case repo_CreateVolume (volumeRepo vs) handle strategy
                            (VolumeRequest.Properties request) (TTLInSeconds request)
                            (VolumeRequest.Privileged request) of
                       Inl err \<Rightarrow>
                         (if err = ErrParentVolumeNotFound \<or> err = ErrNoParentVolumeProvided
                          then 422 else 500)
                     | Inr createdVolume \<Rightarrow> 201))))"
  unfolding CreateVolume_def
  by (simp split: sum.split)

text \<open>
  Claim C1, as the code has it. The claim gives status 409 to a creation that the
  repository refuses with HandleAlreadyExists. The handler knows two repository failures
  by name, the missing parent and the parent not provided; HandleAlreadyExists takes the
  default branch, as the concrete request below shows.
\<close>

theorem CreateVolume_HandleAlreadyExists_counterexample:
  "repo_CreateVolume (volumeRepo (server (Inr Empty) (repo_create (Some HandleAlreadyExists))))
       ''taken'' Empty Map.empty 0 False = Inl HandleAlreadyExists \<and>
   status_of (CreateVolume (env_of (Inr (volume_request ''taken'')) (Inr drawn))
       (server (Inr Empty) (repo_create (Some HandleAlreadyExists))) w_ok
       (http_request '''' [] ''body'')) \<noteq> 409"
  by (simp add: CreateVolume_def example_defs)

text \<open>
  Claim C1, amended: for every POST /volumes request whose handle names a volume that
  already exists, so that the repository's CreateVolume fails with HandleAlreadyExists, the
  response status is 500, with the body of a failed creation.
\<close>

theorem CreateVolume_HandleAlreadyExists:
  assumes "json_Decode env (Body req) = Inr request"
    and "(if VolumeRequest.Handle request = '''' then generateHandle env
          else Inr (VolumeRequest.Handle request)) = Inr handle"
    and "StrategyFor (strategerizer vs) request = Inr strategy"
    and "repo_CreateVolume (volumeRepo vs) handle strategy (VolumeRequest.Properties request)
           (TTLInSeconds request) (VolumeRequest.Privileged request) = Inl HandleAlreadyExists"
  shows "status_of (CreateVolume env vs w req) = 500 \<and>
         body_of (CreateVolume env vs w req) = [ErrorResponse ''failed to create volume'']"
  using assms by (simp add: CreateVolume_def api_errors)

theorem CreateVolume_HandleAlreadyExists_witness:
  "status_of (CreateVolume (env_of (Inr (volume_request ''taken'')) (Inr drawn))
       (server (Inr Empty) (repo_create (Some HandleAlreadyExists))) w_ok
       (http_request '''' [] ''body'')) = 500"
proof -
  let ?env = "env_of (Inr (volume_request ''taken'')) (Inr drawn)"
  let ?vs = "server (Inr Empty) (repo_create (Some HandleAlreadyExists))"
  let ?req = "http_request '''' [] ''body''"
  have d: "json_Decode ?env (Body ?req) = Inr (volume_request ''taken'')"
    by (simp add: example_defs)
  have h: "(if VolumeRequest.Handle (volume_request ''taken'') = '''' then generateHandle ?env
          else Inr (VolumeRequest.Handle (volume_request ''taken''))) = Inr ''taken''"
    by (simp add: example_defs)
  have s: "StrategyFor (strategerizer ?vs) (volume_request ''taken'') = Inr Empty"
    by (simp add: example_defs)
  have r: "repo_CreateVolume (volumeRepo ?vs) ''taken'' Empty
             (VolumeRequest.Properties (volume_request ''taken''))
             (TTLInSeconds (volume_request ''taken''))
             (VolumeRequest.Privileged (volume_request ''taken'')) = Inl HandleAlreadyExists"
    by (simp add: example_defs)
  show ?thesis using CreateVolume_HandleAlreadyExists [OF d h s r, of w_ok] by simp
qed

text \<open>
  Claim C3: the status of a POST /volumes request is 422 exactly when the strategy
  resolver, once reached (the body decoded and the handle resolved), rejects the request,
  or the repository fails with ParentNotFound or NoParentProvided; every other failure of
  the repository's creation yields 500.
\<close>

theorem CreateVolume_unprocessable:
  "(status_of (CreateVolume env vs w req) = 422 \<longleftrightarrow>
      (\<exists>request handle.
         json_Decode env (Body req) = Inr request \<and>
         (if VolumeRequest.Handle request = '''' then generateHandle env
          else Inr (VolumeRequest.Handle request)) = Inr handle \<and>
         (case StrategyFor (strategerizer vs) request of
            Inl err \<Rightarrow> True
          | Inr strategy \<Rightarrow>
              repo_CreateVolume (volumeRepo vs) handle strategy (VolumeRequest.Properties request)
                (TTLInSeconds request) (VolumeRequest.Privileged request)
              \<in> {Inl ErrParentVolumeNotFound, Inl ErrNoParentVolumeProvided}))) \<and>
   (\<forall>request handle strategy err.
      json_Decode env (Body req) = Inr request \<and>
      (if VolumeRequest.Handle request = '''' then generateHandle env
       else Inr (VolumeRequest.Handle request)) = Inr handle \<and>
      StrategyFor (strategerizer vs) request = Inr strategy \<and>
      repo_CreateVolume (volumeRepo vs) handle strategy (VolumeRequest.Properties request)
        (TTLInSeconds request) (VolumeRequest.Privileged request) = Inl err \<and>
      err \<noteq> ErrParentVolumeNotFound \<and> err \<noteq> ErrNoParentVolumeProvided \<longrightarrow>
      status_of (CreateVolume env vs w req) = 500)"
proof (cases "json_Decode env (Body req)")
  case (Inl e)
  then show ?thesis by (simp add: CreateVolume_status)
next
  case d: (Inr request)
  show ?thesis
  proof (cases "if VolumeRequest.Handle request = '''' then generateHandle env
                else Inr (VolumeRequest.Handle request)")
    case (Inl e)
    then show ?thesis using d by (simp add: CreateVolume_status)
  next
    case h: (Inr handle)
    show ?thesis
    proof (cases "StrategyFor (strategerizer vs) request")
      case (Inl e)
      then show ?thesis using d h by (simp add: CreateVolume_status)
    next
      case s: (Inr strategy)
      show ?thesis
      proof (cases "repo_CreateVolume (volumeRepo vs) handle strategy
                      (VolumeRequest.Properties request) (TTLInSeconds request)
                      (VolumeRequest.Privileged request)")
        case (Inl e)
        then show ?thesis using d h s by (simp add: CreateVolume_status)
      next
        case (Inr v)
        then show ?thesis using d h s by (simp add: CreateVolume_status)
      qed
    qed
  qed
qed

theorem CreateVolume_unprocessable_witness:
  "status_of (CreateVolume (env_of (Inr (volume_request ''h'')) (Inr drawn))
      (server (Inl UnprocessableStrategy) (repo_create None)) w_ok
      (http_request '''' [] ''body'')) = 422 \<and>
   status_of (CreateVolume (env_of (Inr (volume_request ''h'')) (Inr drawn))
      (server (Inr (COWFrom ''p'')) (repo_create (Some ErrParentVolumeNotFound))) w_ok
      (http_request '''' [] ''body'')) = 422 \<and>
   status_of (CreateVolume (env_of (Inr (volume_request ''h'')) (Inr drawn))
      (server (Inr (COWFrom '''')) (repo_create (Some ErrNoParentVolumeProvided))) w_ok
      (http_request '''' [] ''body'')) = 422 \<and>
   status_of (CreateVolume (env_of (Inr (volume_request ''h'')) (Inr drawn))
      (server (Inr Empty) (repo_create (Some StreamFailed))) w_ok
      (http_request '''' [] ''body'')) = 500 \<and>
   status_of (CreateVolume (env_of (Inr (volume_request ''h'')) (Inr drawn))
      (server (Inr Empty) (repo_create None)) w_ok
      (http_request '''' [] ''body'')) \<noteq> 422"
  using CreateVolume_unprocessable
          [of "env_of (Inr (volume_request ''h'')) (Inr drawn)"
              "server (Inl UnprocessableStrategy) (repo_create None)" w_ok
              "http_request '''' [] ''body''"]
        CreateVolume_unprocessable
          [of "env_of (Inr (volume_request ''h'')) (Inr drawn)"
              "server (Inr (COWFrom ''p'')) (repo_create (Some ErrParentVolumeNotFound))" w_ok
              "http_request '''' [] ''body''"]
        CreateVolume_unprocessable
          [of "env_of (Inr (volume_request ''h'')) (Inr drawn)"
              "server (Inr (COWFrom '''')) (repo_create (Some ErrNoParentVolumeProvided))" w_ok
              "http_request '''' [] ''body''"]
        CreateVolume_unprocessable
          [of "env_of (Inr (volume_request ''h'')) (Inr drawn)"
              "server (Inr Empty) (repo_create (Some StreamFailed))" w_ok
              "http_request '''' [] ''body''"]
        CreateVolume_unprocessable
          [of "env_of (Inr (volume_request ''h'')) (Inr drawn)"
              "server (Inr Empty) (repo_create None)" w_ok
              "http_request '''' [] ''body''"]
  by (simp add: example_defs)

text \<open>The call the handler makes on the repository, by the answers that precede it.\<close>

lemma CreateVolume_repo_calls:
  "repo_calls (CreateVolume env vs w req) =
     (case json_Decode env (Body req) of
        Inl err \<Rightarrow> []
      | Inr request \<Rightarrow>
          (case (if VolumeRequest.Handle request = '''' then generateHandle env
                 else Inr (VolumeRequest.Handle request)) of
             Inl err \<Rightarrow> []
           | Inr handle \<Rightarrow>
               (case StrategyFor (strategerizer vs) request of
                  Inl err \<Rightarrow> []
                | Inr strategy \<Rightarrow>
                    [CallCreateVolume handle strategy (VolumeRequest.Properties request)
                       (TTLInSeconds request) (VolumeRequest.Privileged request)])))"
  unfolding CreateVolume_def
  by (simp split: sum.split option.split)




text \<open>
  Claim C8: when the request carries no handle and generating one fails, the handler
  responds 400, not 500, with the body of a failed creation, and never calls the
  repository.
\<close>

theorem CreateVolume_generateHandle_fails:
  assumes "json_Decode env (Body req) = Inr request"
    and "VolumeRequest.Handle request = ''''"
    and "uuid_NewV4 env = Inl e"
  shows "status_of (CreateVolume env vs w req) = 400 \<and>
         status_of (CreateVolume env vs w req) \<noteq> 500 \<and>
         body_of (CreateVolume env vs w req) = [ErrorResponse ''failed to create volume''] \<and>
         repo_calls (CreateVolume env vs w req) = []"
  using assms
  by (simp add: CreateVolume_status CreateVolume_repo_calls generateHandle_def)
     (simp add: CreateVolume_def generateHandle_def api_errors)

theorem CreateVolume_generateHandle_fails_witness:
  "status_of (CreateVolume (env_of (Inr (volume_request '''')) (Inl (errors_New ''EOF'')))
      (server (Inr Empty) (repo_create None)) w_ok (http_request '''' [] ''body'')) = 400"
proof -
  let ?env = "env_of (Inr (volume_request '''')) (Inl (errors_New ''EOF''))"
  let ?req = "http_request '''' [] ''body''"
  have d: "json_Decode ?env (Body ?req) = Inr (volume_request '''')"
    by (simp add: example_defs)
  have h: "VolumeRequest.Handle (volume_request '''') = ''''"
    by (simp add: example_defs)
  have u: "uuid_NewV4 ?env = Inl (errors_New ''EOF'')"
    by (simp add: uuid_NewV4_def example_defs)
  show ?thesis
    using CreateVolume_generateHandle_fails [OF d h u, of "server (Inr Empty) (repo_create None)" w_ok]
    by simp
qed

text \<open>
  Claim C10: when the repository creates the volume, the calls on the response writer are,
  in this order, the Content-Type header, the status 201 and the encoded volume. The
  client observes 201 and that header whatever the encoding returns; when the encoding
  fails the handler logs \<^verbatim>\<open>failed-to-encode\<close> and writes nothing more, so no error
  response follows.
\<close>

theorem CreateVolume_created:
  assumes "json_Decode env (Body req) = Inr request"
    and "(if VolumeRequest.Handle request = '''' then generateHandle env
          else Inr (VolumeRequest.Handle request)) = Inr handle"
    and "StrategyFor (strategerizer vs) request = Inr strategy"
    and "repo_CreateVolume (volumeRepo vs) handle strategy (VolumeRequest.Properties request)
           (TTLInSeconds request) (VolumeRequest.Privileged request) = Inr createdVolume"
  shows "w_calls (CreateVolume env vs w req) =
           [SetHeader ''Content-Type'' ''application/json'',
            WriteHeader 201,
            Write (VolumeResponse createdVolume)] \<and>
         status_of (CreateVolume env vs w req) = 201 \<and>
         headers_sent (CreateVolume env vs w req) = [(''Content-Type'', ''application/json'')] \<and>
         body_of (CreateVolume env vs w req) = [VolumeResponse createdVolume] \<and>
         (w (VolumeResponse createdVolume) \<noteq> None \<longrightarrow>
            logged (CreateVolume env vs w req) =
              [(Debug, ''start''), (Debug, ''creating''), (Debug, ''created''),
               (Err, ''failed-to-encode''), (Debug, ''done'')]) \<and>
         (w (VolumeResponse createdVolume) = None \<longrightarrow>
            logged (CreateVolume env vs w req) =
              [(Debug, ''start''), (Debug, ''creating''), (Debug, ''created''),
               (Debug, ''done'')])"
  using assms by (auto simp: CreateVolume_def w_calls_def split: option.split)

theorem CreateVolume_created_witness:
  "status_of (CreateVolume (env_of (Inr (volume_request ''h'')) (Inr drawn))
      (server (Inr Empty) (repo_create None)) w_broken (http_request '''' [] ''body'')) = 201 \<and>
   body_of (CreateVolume (env_of (Inr (volume_request ''h'')) (Inr drawn))
      (server (Inr Empty) (repo_create None)) w_broken (http_request '''' [] ''body'')) =
     [VolumeResponse (vol ''h'')] \<and>
   logged (CreateVolume (env_of (Inr (volume_request ''h'')) (Inr drawn))
      (server (Inr Empty) (repo_create None)) w_broken (http_request '''' [] ''body'')) =
     [(Debug, ''start''), (Debug, ''creating''), (Debug, ''created''),
      (Err, ''failed-to-encode''), (Debug, ''done'')] \<and>
   logged (CreateVolume (env_of (Inr (volume_request ''h'')) (Inr drawn))
      (server (Inr Empty) (repo_create None)) w_ok (http_request '''' [] ''body'')) =
     [(Debug, ''start''), (Debug, ''creating''), (Debug, ''created''), (Debug, ''done'')]"
proof -
  let ?env = "env_of (Inr (volume_request ''h'')) (Inr drawn)"
  let ?vs = "server (Inr Empty) (repo_create None)"
  let ?req = "http_request '''' [] ''body''"
  have d: "json_Decode ?env (Body ?req) = Inr (volume_request ''h'')"
    by (simp add: example_defs)
  have h: "(if VolumeRequest.Handle (volume_request ''h'') = '''' then generateHandle ?env
          else Inr (VolumeRequest.Handle (volume_request ''h''))) = Inr ''h''"
    by (simp add: example_defs)
  have s: "StrategyFor (strategerizer ?vs) (volume_request ''h'') = Inr Empty"
    by (simp add: example_defs)
  have r: "repo_CreateVolume (volumeRepo ?vs) ''h'' Empty
             (VolumeRequest.Properties (volume_request ''h''))
             (TTLInSeconds (volume_request ''h''))
             (VolumeRequest.Privileged (volume_request ''h'')) = Inr (vol ''h'')"
    by (simp add: example_defs)
  have b: "w_broken (VolumeResponse (vol ''h'')) \<noteq> None"
    and k: "w_ok (VolumeResponse (vol ''h'')) = None"
    by (simp_all add: w_broken_def w_ok_def)
  show ?thesis
    using CreateVolume_created [OF d h s r, of w_broken] CreateVolume_created [OF d h s r, of w_ok] b k
    by simp
qed

subsection \<open>DELETE /volumes/:handle\<close>

text \<open>
  Claim C4, as the code has it. The claim gives status 409 to a destroy that the repository
  refuses with HasChildren. The handler knows one repository failure by name, the missing
  volume; HasChildren takes the other branch, as the concrete request below shows.
\<close>

theorem DestroyVolume_HasChildren_counterexample:
  "repo_DestroyVolume (volumeRepo (server (Inr Empty) (repo_destroy (Some HasChildren))))
       (Param (http_request ''parent'' [] '''') ''handle'') = Some HasChildren \<and>
   status_of (DestroyVolume (server (Inr Empty) (repo_destroy (Some HasChildren))) w_ok
       (http_request ''parent'' [] '''')) \<noteq> 409"
  by (simp add: DestroyVolume_def example_defs)

text \<open>
  Claim C4, amended: for every DELETE /volumes/:handle request where the repository fails
  with HasChildren, the response status is 500, with the body of a failed destroy.
\<close>

theorem DestroyVolume_HasChildren:
  assumes "repo_DestroyVolume (volumeRepo vs) (Param req ''handle'') = Some HasChildren"
  shows "status_of (DestroyVolume vs w req) = 500 \<and>
         body_of (DestroyVolume vs w req) = [ErrorResponse ''failed to destroy volume'']"
  using assms by (simp add: DestroyVolume_def api_errors)

theorem DestroyVolume_HasChildren_witness:
  "status_of (DestroyVolume (server (Inr Empty) (repo_destroy (Some HasChildren))) w_ok
       (http_request ''parent'' [] '''')) = 500"
proof -
  have h: "repo_DestroyVolume (volumeRepo (server (Inr Empty) (repo_destroy (Some HasChildren))))
       (Param (http_request ''parent'' [] '''') ''handle'') = Some HasChildren"
    by (simp add: example_defs)
  show ?thesis using DestroyVolume_HasChildren [OF h, of w_ok] by simp
qed

text \<open>
  Claim C5: when the repository answers a destroy with its does-not-exist error (the
  spec's NotFound, the answer for a handle it does not know), the handler responds 404 and
  not 500; when the destroy succeeds it responds 204 and writes no body.
\<close>

theorem DestroyVolume_unknown_handle:
  "(repo_DestroyVolume (volumeRepo vs) (Param req ''handle'') = Some ErrVolumeDoesNotExist \<longrightarrow>
      status_of (DestroyVolume vs w req) = 404 \<and>
      status_of (DestroyVolume vs w req) \<noteq> 500 \<and>
      body_of (DestroyVolume vs w req) = [ErrorResponse ''failed to destroy volume'']) \<and>
   (repo_DestroyVolume (volumeRepo vs) (Param req ''handle'') = None \<longrightarrow>
      status_of (DestroyVolume vs w req) = 204 \<and>
      body_of (DestroyVolume vs w req) = [])"
  by (simp add: DestroyVolume_def api_errors)

theorem DestroyVolume_unknown_handle_witness:
  "status_of (DestroyVolume (server (Inr Empty) (repo_destroy (Some ErrVolumeDoesNotExist))) w_ok
      (http_request ''gone'' [] '''')) = 404 \<and>
   status_of (DestroyVolume (server (Inr Empty) (repo_destroy None)) w_ok
      (http_request ''h'' [] '''')) = 204 \<and>
   body_of (DestroyVolume (server (Inr Empty) (repo_destroy None)) w_ok
      (http_request ''h'' [] '''')) = []"
  using DestroyVolume_unknown_handle
          [of "server (Inr Empty) (repo_destroy (Some ErrVolumeDoesNotExist))"
              "http_request ''gone'' [] ''''" w_ok]
        DestroyVolume_unknown_handle
          [of "server (Inr Empty) (repo_destroy None)" "http_request ''h'' [] ''''" w_ok]
  by (simp add: example_defs)

subsection \<open>PUT /volumes/:handle/stream-in and GET /volumes/:handle/stream-out\<close>

lemma StreamIn_repo_calls:
  "repo_calls (StreamIn vs w req) =
     (case subPath_of req of
        None \<Rightarrow> []
      | Some subPath \<Rightarrow> [CallStreamIn (Param req ''handle'') subPath (Body req)])"
  by (simp add: StreamIn_def Let_def split: option.split prod.split)

lemma StreamOut_repo_calls:
  "repo_calls (StreamOut vs w req) =
     (case subPath_of req of
        None \<Rightarrow> []
      | Some subPath \<Rightarrow> [CallStreamOut (Param req ''handle'') subPath])"
  by (simp add: StreamOut_def Let_def split: option.split prod.split)

text \<open>
  Claim C2. The repository's StreamIn returns \<^verbatim>\<open>bad_stream = true\<close> together with an
  error (a malformed tar or an escaping sub path is a failure); this is the third
  hypothesis. Then the handler responds 404 when the repository reports that the volume
  does not exist, whatever the flag; otherwise 400 exactly when the flag is set; 500 on
  any other repository error; and 204 on success.
\<close>

theorem StreamIn_status:
  assumes "subPath_of req = Some subPath"
    and "repo_StreamIn (volumeRepo vs) (Param req ''handle'') subPath (Body req) = (badStream, err)"
    and "badStream \<longrightarrow> err \<noteq> None"
  shows "(err = Some ErrVolumeDoesNotExist \<longrightarrow> status_of (StreamIn vs w req) = 404) \<and>
         (status_of (StreamIn vs w req) = 400 \<longleftrightarrow>
            badStream \<and> err \<noteq> Some ErrVolumeDoesNotExist) \<and>
         (\<forall>e. err = Some e \<and> e \<noteq> ErrVolumeDoesNotExist \<and> \<not> badStream \<longrightarrow>
            status_of (StreamIn vs w req) = 500) \<and>
         (err = None \<longrightarrow> status_of (StreamIn vs w req) = 204)"
  using assms by (cases err) (auto simp: StreamIn_def)

theorem StreamIn_status_witness:
  "status_of (StreamIn (server (Inr Empty) repo_checking) w_ok
      (http_request ''gone'' [(''path'', ''../etc'')] ''tar'')) = 404 \<and>
   status_of (StreamIn (server (Inr Empty) repo_checking) w_ok
      (http_request ''h'' [(''path'', ''../etc'')] ''tar'')) = 400 \<and>
   status_of (StreamIn (server (Inr Empty) repo_checking) w_ok
      (http_request ''h'' [(''path'', ''sub'')] '''')) = 500 \<and>
   status_of (StreamIn (server (Inr Empty) repo_checking) w_ok
      (http_request ''h'' [(''path'', ''sub'')] ''tar'')) = 204"
proof -
  let ?vs = "server (Inr Empty) repo_checking"
  have p: "subPath_of (http_request h [(''path'', x)] b) = Some x" for h x b
    by (simp add: subPath_of_def URL_Query_def http_request_def)
  have r1: "repo_StreamIn (volumeRepo ?vs)
              (Param (http_request ''gone'' [(''path'', ''../etc'')] ''tar'') ''handle'') ''../etc''
              (Body (http_request ''gone'' [(''path'', ''../etc'')] ''tar'')) =
            (False, Some ErrVolumeDoesNotExist)"
    and r2: "repo_StreamIn (volumeRepo ?vs)
              (Param (http_request ''h'' [(''path'', ''../etc'')] ''tar'') ''handle'') ''../etc''
              (Body (http_request ''h'' [(''path'', ''../etc'')] ''tar'')) =
            (True, Some StreamMalformed)"
    and r3: "repo_StreamIn (volumeRepo ?vs)
              (Param (http_request ''h'' [(''path'', ''sub'')] '''') ''handle'') ''sub''
              (Body (http_request ''h'' [(''path'', ''sub'')] '''')) =
            (False, Some StreamFailed)"
    and r4: "repo_StreamIn (volumeRepo ?vs)
              (Param (http_request ''h'' [(''path'', ''sub'')] ''tar'') ''handle'') ''sub''
              (Body (http_request ''h'' [(''path'', ''sub'')] ''tar'')) =
            (False, None)"
    by (simp_all add: example_defs)
  have c1: "False \<longrightarrow> Some ErrVolumeDoesNotExist \<noteq> None"
    and c2: "True \<longrightarrow> Some StreamMalformed \<noteq> None"
    and c3: "False \<longrightarrow> Some StreamFailed \<noteq> None"
    and c4: "False \<longrightarrow> (None :: error option) \<noteq> None"
    by simp_all
  show ?thesis
    using StreamIn_status [OF p r1 c1, of w_ok] StreamIn_status [OF p r2 c2, of w_ok]
          StreamIn_status [OF p r3 c3, of w_ok] StreamIn_status [OF p r4 c4, of w_ok]
    by simp
qed

text \<open>
  Claim C6: when the repository's StreamOut fails, before writing anything to the
  response, with an error that \<^verbatim>\<open>os.IsNotExist\<close> recognises (the sub path is missing),
  the handler responds 404 with the message \<^verbatim>\<open>no such file or directory\<close>. For an
  unknown volume it responds 404 with the message of a failed stream out, so the two
  responses differ in their bodies.
\<close>

theorem StreamOut_sub_path_missing:
  assumes "subPath_of req = Some subPath"
    and "repo_StreamOut (volumeRepo vs) (Param req ''handle'') subPath = ([], Some err)"
    and "os_IsNotExist err"
    and "subPath_of req' = Some subPath'"
    and "repo_StreamOut (volumeRepo vs') (Param req' ''handle'') subPath' =
           ([], Some ErrVolumeDoesNotExist)"
  shows "status_of (StreamOut vs w req) = 404 \<and>
         body_of (StreamOut vs w req) = [ErrorResponse ''no such file or directory''] \<and>
         status_of (StreamOut vs' w' req') = 404 \<and>
         body_of (StreamOut vs' w' req') = [ErrorResponse ''failed to stream out from volume''] \<and>
         body_of (StreamOut vs w req) \<noteq> body_of (StreamOut vs' w' req')"
proof -
  have "err \<noteq> ErrVolumeDoesNotExist"
    using assms(3) by auto
  then have a: "status_of (StreamOut vs w req) = 404 \<and>
      body_of (StreamOut vs w req) = [ErrorResponse ''no such file or directory'']"
    using assms(1,2,3) by (simp add: StreamOut_def api_errors)
  have b: "status_of (StreamOut vs' w' req') = 404 \<and>
      body_of (StreamOut vs' w' req') = [ErrorResponse ''failed to stream out from volume'']"
    using assms(4,5) by (simp add: StreamOut_def api_errors)
  from a b show ?thesis by simp
qed

theorem StreamOut_sub_path_missing_witness:
  "status_of (StreamOut (server (Inr Empty) (repo_stream_out ([], Some SubPathNotFound))) w_ok
      (http_request ''h'' [(''path'', ''absent'')] '''')) = 404 \<and>
   body_of (StreamOut (server (Inr Empty) (repo_stream_out ([], Some SubPathNotFound))) w_ok
      (http_request ''h'' [(''path'', ''absent'')] '''')) =
     [ErrorResponse ''no such file or directory''] \<and>
   body_of (StreamOut (server (Inr Empty) (repo_stream_out ([], Some ErrVolumeDoesNotExist))) w_ok
      (http_request ''gone'' [] '''')) =
     [ErrorResponse ''failed to stream out from volume'']"
proof -
  have p: "subPath_of (http_request ''h'' [(''path'', ''absent'')] '''') = Some ''absent''"
    and q: "subPath_of (http_request ''gone'' [] '''') = Some ''''"
    by (simp_all add: subPath_of_def URL_Query_def example_defs)
  have r: "repo_StreamOut (volumeRepo (server (Inr Empty) (repo_stream_out ([], Some e))))
             (Param (http_request h qs '''') ''handle'') sp = ([], Some e)" for e h qs sp
    by (simp add: example_defs)
  have n: "os_IsNotExist SubPathNotFound"
    by simp
  show ?thesis
    using StreamOut_sub_path_missing [OF p r n q r, of w_ok w_ok]
    by simp
qed

text \<open>
  Claim C9: in both stream handlers, when the query has no \<^verbatim>\<open>path\<close> key the repository
  is called with the empty sub path, and when it has several the repository is called with
  the value of the first.
\<close>

theorem stream_sub_path:
  "((\<forall>v. (''path'', v) \<notin> set (RawQuery req)) \<longrightarrow>
      repo_calls (StreamIn vs w req) = [CallStreamIn (Param req ''handle'') '''' (Body req)] \<and>
      repo_calls (StreamOut vs w req) = [CallStreamOut (Param req ''handle'') '''']) \<and>
   (\<forall>pre v post.
      RawQuery req = pre @ (''path'', v) # post \<and> (\<forall>u. (''path'', u) \<notin> set pre) \<longrightarrow>
      repo_calls (StreamIn vs w req) = [CallStreamIn (Param req ''handle'') v (Body req)] \<and>
      repo_calls (StreamOut vs w req) = [CallStreamOut (Param req ''handle'') v])"
  by (auto simp: StreamIn_repo_calls StreamOut_repo_calls subPath_of_absent
           dest: subPath_of_first)

theorem stream_sub_path_witness:
  "repo_calls (StreamIn (server (Inr Empty) (repo_stream_in (False, None))) w_ok
      (http_request ''h'' [(''mode'', ''x'')] ''tar'')) = [CallStreamIn ''h'' '''' ''tar''] \<and>
   repo_calls (StreamOut (server (Inr Empty) (repo_stream_in (False, None))) w_ok
      (http_request ''h'' [(''mode'', ''x'')] ''tar'')) = [CallStreamOut ''h'' ''''] \<and>
   repo_calls (StreamIn (server (Inr Empty) (repo_stream_in (False, None))) w_ok
      (http_request ''h'' [(''mode'', ''x''), (''path'', ''a''), (''path'', ''b'')] ''tar'')) =
     [CallStreamIn ''h'' ''a'' ''tar''] \<and>
   repo_calls (StreamOut (server (Inr Empty) (repo_stream_in (False, None))) w_ok
      (http_request ''h'' [(''mode'', ''x''), (''path'', ''a''), (''path'', ''b'')] ''tar'')) =
     [CallStreamOut ''h'' ''a'']"
proof -
  let ?vs = "server (Inr Empty) (repo_stream_in (False, None))"
  let ?r1 = "http_request ''h'' [(''mode'', ''x'')] ''tar''"
  let ?r2 = "http_request ''h'' [(''mode'', ''x''), (''path'', ''a''), (''path'', ''b'')] ''tar''"
  have a: "\<forall>v. (''path'', v) \<notin> set (RawQuery ?r1)"
    by (simp add: http_request_def)
  have b: "RawQuery ?r2 = [(''mode'', ''x'')] @ (''path'', ''a'') # [(''path'', ''b'')] \<and>
           (\<forall>u. (''path'', u) \<notin> set [(''mode'', ''x'')])"
    by (simp add: http_request_def)
  have "repo_calls (StreamIn ?vs w_ok ?r1) = [CallStreamIn (Param ?r1 ''handle'') '''' (Body ?r1)] \<and>
        repo_calls (StreamOut ?vs w_ok ?r1) = [CallStreamOut (Param ?r1 ''handle'') '''']"
    using stream_sub_path [of ?r1 ?vs w_ok] a by blast
  moreover have "repo_calls (StreamIn ?vs w_ok ?r2) = [CallStreamIn (Param ?r2 ''handle'') ''a'' (Body ?r2)] \<and>
        repo_calls (StreamOut ?vs w_ok ?r2) = [CallStreamOut (Param ?r2 ''handle'') ''a'']"
    using stream_sub_path [of ?r2 ?vs w_ok] b by blast
  ultimately show ?thesis
    by (simp add: http_request_def)
qed

end
